theory Spec2Isabelle
  imports Complex_Main
begin

section \<open>Python values and the validation framework\<close>

text \<open>
  The repository is a collection of pydantic (version 2) model classes: it imports
  \<^verbatim>\<open>field_validator\<close>, \<^verbatim>\<open>model_validator\<close> and \<^verbatim>\<open>ConfigDict\<close>, which exist only there.
  The functions of the source are the validators of the classes; the field declarations
  give the type and the bounds of every field. This section models the part of Python and
  of pydantic the validators run on.
\<close>

subsection \<open>Strings\<close>

text \<open>
  A Python \<^verbatim>\<open>str\<close> is a sequence of Unicode code points, and \<^verbatim>\<open>len\<close> counts code points.
  A string is therefore a list of code points; \<open>str\<close> writes an ASCII literal.
  Field names (the keys of \<^verbatim>\<open>info.data\<close>) are ASCII identifiers and stay \<open>string\<close>.
\<close>

type_synonym py_str = "nat list"

definition str :: "string \<Rightarrow> py_str" where
  "str s = map of_char s"

text \<open>
  \<^verbatim>\<open>str.isspace\<close> for one code point: the code points Python 3 treats as whitespace
  (\<^verbatim>\<open>[c for c in range(0x110000) if chr(c).isspace()]\<close>). \<^verbatim>\<open>str.strip()\<close> without
  argument removes exactly these from both ends.
\<close>

definition isspace :: "nat \<Rightarrow> bool" where
  "isspace c \<longleftrightarrow>
     (9 \<le> c \<and> c \<le> 13) \<or> (28 \<le> c \<and> c \<le> 32) \<or> c = 133 \<or> c = 160 \<or> c = 5760
     \<or> (8192 \<le> c \<and> c \<le> 8202) \<or> c = 8232 \<or> c = 8233 \<or> c = 8239 \<or> c = 8287
     \<or> c = 12288"

definition lstrip :: "py_str \<Rightarrow> py_str" where
  "lstrip s = dropWhile isspace s"

definition rstrip :: "py_str \<Rightarrow> py_str" where
  "rstrip s = rev (dropWhile isspace (rev s))"

definition strip :: "py_str \<Rightarrow> py_str" where
  "strip s = lstrip (rstrip s)"

text \<open>\<^verbatim>\<open>s.replace(c, t)\<close> for a one-character pattern \<open>c\<close>: every occurrence is replaced.\<close>

definition replace_char :: "nat \<Rightarrow> py_str \<Rightarrow> py_str \<Rightarrow> py_str" where
  "replace_char c t s = concat (map (\<lambda>x. if x = c then t else [x]) s)"

text \<open>
  \<^verbatim>\<open>s.split(c)\<close> for a one-character separator: the pieces between the occurrences of
  \<open>c\<close>; the result is never the empty list.
\<close>

fun split_char :: "nat \<Rightarrow> py_str \<Rightarrow> py_str list" where
  "split_char c [] = [[]]"
| "split_char c (x # xs) =
     (if x = c then [] # split_char c xs
      else (case split_char c xs of
              [] \<Rightarrow> [[x]]
            | p # ps \<Rightarrow> (x # p) # ps))"

text \<open>\<^verbatim>\<open>xs[0]\<close>, which raises IndexError on the empty list.\<close>

datatype py_error = ValueError | TypeError | AttributeError | KeyError | IndexError

definition index0 :: "'a list \<Rightarrow> py_error + 'a" where
  "index0 xs = (case xs of [] \<Rightarrow> Inl IndexError | x # _ \<Rightarrow> Inr x)"

subsection \<open>Dates and times\<close>

text \<open>
  \<^verbatim>\<open>datetime.datetime\<close>: the calendar fields, the \<^verbatim>\<open>tzinfo\<close> object of the value, given by
  its identity (\<open>None\<close> for a value without one), and what \<^verbatim>\<open>utcoffset()\<close> returns: the UTC
  offset, in microseconds, that the \<^verbatim>\<open>tzinfo\<close> object gives for this wall clock and fold,
  \<open>None\<close> for a naive value. Two datetimes of one zone object can have different offsets,
  on the two sides of a change of daylight saving time. The attribute \<^verbatim>\<open>fold\<close> is read by
  the zone only, when it computes the offset, and is not a field here.
\<close>

record datetime =
  year :: nat
  month :: nat
  day :: nat
  hour :: nat
  minute :: nat
  second :: nat
  microsecond :: nat
  tzinfo :: "nat option"
  utcoffset :: "int option"

text \<open>
  \<^verbatim>\<open>"%0wd" % n\<close>: the decimal digits of \<open>n\<close>, padded with zeros on the left to at least
  \<open>w\<close> characters.
\<close>

fun digits :: "nat \<Rightarrow> py_str" where
  "digits n = (if n < 10 then [48 + n] else digits (n div 10) @ [48 + n mod 10])"

declare digits.simps [simp del]

definition zero_padded :: "nat \<Rightarrow> nat \<Rightarrow> py_str" where
  "zero_padded w n = replicate (w - length (digits n)) 48 @ digits n"

text \<open>
  The UTC offset as \<^verbatim>\<open>isoformat\<close> prints it: sign, hours and minutes, then the seconds
  when the offset has any, then the microseconds when it has any.
\<close>

definition format_offset :: "int option \<Rightarrow> py_str" where
  "format_offset off =
     (case off of
        None \<Rightarrow> []
      | Some o_us \<Rightarrow>
          (let a = \<bar>o_us\<bar>;
               hh = a div 3600000000;
               mm = (a mod 3600000000) div 60000000;
               ss = a mod 60000000
           in (if o_us < 0 then str ''-'' else str ''+'')
              @ zero_padded 2 (nat hh) @ str '':'' @ zero_padded 2 (nat mm)
              @ (if ss \<noteq> 0
                 then str '':'' @ zero_padded 2 (nat (ss div 1000000))
                      @ (if ss mod 1000000 \<noteq> 0
                         then str ''.'' @ zero_padded 6 (nat (ss mod 1000000)) else [])
                 else [])))"

text \<open>\<^verbatim>\<open>datetime.isoformat()\<close> with the default separator and time specification.\<close>

definition isoformat :: "datetime \<Rightarrow> py_str" where
  "isoformat d =
     zero_padded 4 (year d) @ str ''-'' @ zero_padded 2 (month d) @ str ''-''
     @ zero_padded 2 (day d) @ str ''T''
     @ zero_padded 2 (hour d) @ str '':'' @ zero_padded 2 (minute d) @ str '':''
     @ zero_padded 2 (second d)
     @ (if microsecond d \<noteq> 0 then str ''.'' @ zero_padded 6 (microsecond d) else [])
     @ format_offset (utcoffset d)"

text \<open>
  The proleptic Gregorian ordinal of a date (\<^verbatim>\<open>_ymd2ord\<close>) and the microseconds of the
  wall clock since the start of day one.
\<close>

definition is_leap :: "nat \<Rightarrow> bool" where
  "is_leap y \<longleftrightarrow> y mod 4 = 0 \<and> (y mod 100 \<noteq> 0 \<or> y mod 400 = 0)"

definition days_before_year :: "nat \<Rightarrow> int" where
  "days_before_year y =
     (let p = int y - 1 in p * 365 + p div 4 - p div 100 + p div 400)"

definition DAYS_IN_MONTH :: "nat list" where
  "DAYS_IN_MONTH = [31, 28, 31, 30, 31, 30, 31, 31, 30, 31, 30, 31]"


definition days_before_month :: "nat \<Rightarrow> nat \<Rightarrow> int" where
  "days_before_month y m =
     int (sum_list (take (m - 1) DAYS_IN_MONTH)) + (if 2 < m \<and> is_leap y then 1 else 0)"

definition ymd2ord :: "nat \<Rightarrow> nat \<Rightarrow> nat \<Rightarrow> int" where
  "ymd2ord y m d = days_before_year y + days_before_month y m + int d"

definition wall_microseconds :: "datetime \<Rightarrow> int" where
  "wall_microseconds d =
     (((ymd2ord (year d) (month d) (day d) * 24 + int (hour d)) * 60 + int (minute d)) * 60
        + int (second d)) * 1000000 + int (microsecond d)"


text \<open>
  Comparison of two datetimes (\<^verbatim>\<open>datetime._cmp\<close>), with the results -1, 0 and 1. When
  the two have the same \<^verbatim>\<open>tzinfo\<close> object (or both have none), the tuples of fields are
  compared, whatever the offsets are. Otherwise the offsets are computed: when they are
  equal (or both \<^verbatim>\<open>None\<close>) the tuples of fields are compared again; a naive and an aware
  value cannot be ordered (\<^verbatim>\<open>TypeError\<close>); with two different offsets the sign of the
  difference \<^verbatim>\<open>self - other\<close> decides, which takes the offsets into account.
\<close>

fun tuple_cmp :: "nat list \<Rightarrow> nat list \<Rightarrow> int" where
  "tuple_cmp [] [] = 0"
| "tuple_cmp [] (y # ys) = - 1"
| "tuple_cmp (x # xs) [] = 1"
| "tuple_cmp (x # xs) (y # ys) =
     (if x < y then - 1 else if y < x then 1 else tuple_cmp xs ys)"

definition field_tuple :: "datetime \<Rightarrow> nat list" where
  "field_tuple d = [year d, month d, day d, hour d, minute d, second d, microsecond d]"

definition datetime_cmp :: "datetime \<Rightarrow> datetime \<Rightarrow> py_error + int" where
  "datetime_cmp a b =
     (if tzinfo a = tzinfo b then Inr (tuple_cmp (field_tuple a) (field_tuple b))
      else if utcoffset a = utcoffset b then Inr (tuple_cmp (field_tuple a) (field_tuple b))
      else (case (utcoffset a, utcoffset b) of
              (Some myoff, Some otoff) \<Rightarrow>
                (let diff = (wall_microseconds a - wall_microseconds b) + otoff - myoff
                 in Inr (if diff < 0 then - 1 else if diff \<noteq> 0 then 1 else 0))
            | _ \<Rightarrow> Inl TypeError))"


text \<open>\<^verbatim>\<open>a <= b\<close> for two datetimes.\<close>

definition datetime_le :: "datetime \<Rightarrow> datetime \<Rightarrow> py_error + bool" where
  "datetime_le a b = (case datetime_cmp a b of Inl e \<Rightarrow> Inl e | Inr c \<Rightarrow> Inr (c \<le> 0))"

subsection \<open>Values\<close>

text \<open>
  The Python values that reach the validators. A \<^verbatim>\<open>float\<close> is modelled by the exact
  rational value of a finite double; NaN and the infinities are not modelled.
\<close>

datatype py_value =
    PyNone
  | PyBool bool
  | PyInt int
  | PyFloat rat
  | PyStr py_str
  | PyList "py_value list"
  | PyDatetime datetime

text \<open>Truth value testing (\<^verbatim>\<open>if x\<close>, \<^verbatim>\<open>not x\<close>, \<^verbatim>\<open>x and y\<close>).\<close>

fun truthy :: "py_value \<Rightarrow> bool" where
  "truthy PyNone = False"
| "truthy (PyBool b) = b"
| "truthy (PyInt i) = (i \<noteq> 0)"
| "truthy (PyFloat x) = (x \<noteq> 0)"
| "truthy (PyStr s) = (s \<noteq> [])"
| "truthy (PyList xs) = (xs \<noteq> [])"
| "truthy (PyDatetime d) = True"

text \<open>
  \<^verbatim>\<open>a <= w\<close> for a datetime \<open>a\<close> and any value \<open>w\<close>: none of the other values modelled
  here can be ordered with a datetime.
\<close>

definition datetime_le_value :: "datetime \<Rightarrow> py_value \<Rightarrow> py_error + bool" where
  "datetime_le_value a w =
     (case w of PyDatetime b \<Rightarrow> datetime_le a b | _ \<Rightarrow> Inl TypeError)"

subsection \<open>What pydantic does with a validator\<close>

text \<open>
  A field validator declared with \<^verbatim>\<open>@field_validator('f')\<close> has the default mode
  \<^verbatim>\<open>'after'\<close>: it runs on the value pydantic has already converted to the declared type
  of the field, and only when the input supplies the field (a default is not validated).
  A \<^verbatim>\<open>ValueError\<close> raised by the validator becomes a validation error of the model;
  any other exception is not caught and leaves the constructor as it is.
\<close>

datatype 'a validation = Valid 'a | ValidationError | Raised py_error

definition field_validator :: "py_error + 'a \<Rightarrow> 'a validation" where
  "field_validator r =
     (case r of
        Inr x \<Rightarrow> Valid x
      | Inl ValueError \<Rightarrow> ValidationError
      | Inl e \<Rightarrow> Raised e)"

text \<open>
  A validator with two parameters after \<^verbatim>\<open>cls\<close> receives as the second one a
  \<^verbatim>\<open>ValidationInfo\<close> object; the fields validated so far are its attribute \<^verbatim>\<open>data\<close>.
  The object is not a mapping: it defines neither \<^verbatim>\<open>__contains__\<close> nor \<^verbatim>\<open>__iter__\<close> nor
  \<^verbatim>\<open>__getitem__\<close>, so \<^verbatim>\<open>key in info\<close> and \<^verbatim>\<open>info[key]\<close> raise \<^verbatim>\<open>TypeError\<close>.
  A \<^verbatim>\<open>dict\<close> (what pydantic version 1 passed as \<^verbatim>\<open>values\<close>) supports both.
\<close>

datatype py_obj =
    PyDict "string \<rightharpoonup> py_value"
  | ValidationInfo "string \<rightharpoonup> py_value"

fun py_contains :: "string \<Rightarrow> py_obj \<Rightarrow> py_error + bool" where
  "py_contains k (PyDict d) = Inr (d k \<noteq> None)"
| "py_contains k (ValidationInfo d) = Inl TypeError"

fun py_getitem :: "py_obj \<Rightarrow> string \<Rightarrow> py_error + py_value" where
  "py_getitem (PyDict d) k = (case d k of None \<Rightarrow> Inl KeyError | Some v \<Rightarrow> Inr v)"
| "py_getitem (ValidationInfo d) k = Inl TypeError"

text \<open>
  The constraints \<^verbatim>\<open>min_length\<close> and \<^verbatim>\<open>max_length\<close> of a \<^verbatim>\<open>str\<close> field, which pydantic
  checks before the field's validator runs.
\<close>

definition constrained_str :: "nat \<Rightarrow> nat option \<Rightarrow> py_str \<Rightarrow> py_str validation" where
  "constrained_str min_length max_length v =
     (if length v < min_length then ValidationError
      else (case max_length of
              None \<Rightarrow> Valid v
            | Some m \<Rightarrow> if m < length v then ValidationError else Valid v))"

text \<open>The validator \<open>f\<close> of a field, run on the value the field's own constraints accept.\<close>

definition after :: "'a validation \<Rightarrow> ('a \<Rightarrow> py_error + 'b) \<Rightarrow> 'b validation" where
  "after r f =
     (case r of
        Valid x \<Rightarrow> field_validator (f x)
      | ValidationError \<Rightarrow> ValidationError
      | Raised e \<Rightarrow> Raised e)"

text \<open>
  Two fields in the order of their declaration: validation errors are collected and the
  next field is still validated, an exception leaves the constructor at once.
\<close>

fun both :: "'a validation \<Rightarrow> 'b validation \<Rightarrow> ('a \<times> 'b) validation" where
  "both (Raised e) r = Raised e"
| "both (Valid a) (Valid b) = Valid (a, b)"
| "both (Valid a) ValidationError = ValidationError"
| "both (Valid a) (Raised e) = Raised e"
| "both ValidationError (Raised e) = Raised e"
| "both ValidationError r = ValidationError"

text \<open>The bounds \<^verbatim>\<open>ge\<close> and \<^verbatim>\<open>le\<close> of a \<^verbatim>\<open>float\<close> field.\<close>

definition constrained_float :: "rat \<Rightarrow> rat \<Rightarrow> rat \<Rightarrow> rat validation" where
  "constrained_float ge le v = (if v < ge \<or> le < v then ValidationError else Valid v)"

section \<open>kb_external_models: QuestionModel.fileIds\<close>

text \<open>
  \<^verbatim>\<open>uuid.UUID(hex)\<close> with one positional argument. The constructor first counts the
  arguments that are \<^verbatim>\<open>None\<close> (\<^verbatim>\<open>TypeError\<close> when all five are), then evaluates
  \<^verbatim>\<open>hex.replace('urn:', '')\<close>. A list, a number and a Boolean have no attribute
  \<^verbatim>\<open>replace\<close> (\<^verbatim>\<open>AttributeError\<close>); a datetime has one, which refuses the string arguments
  (\<^verbatim>\<open>TypeError\<close>). The
  rest of the string path (removing braces and hyphens, the length check, \<^verbatim>\<open>int(hex, 16)\<close>)
  is the parameter \<open>parse_hex\<close>: its result is the UUID's integer or \<^verbatim>\<open>ValueError\<close>.
\<close>

fun uuid_UUID :: "(py_str \<Rightarrow> py_error + int) \<Rightarrow> py_value \<Rightarrow> py_error + int" where
  "uuid_UUID parse_hex PyNone = Inl TypeError"
| "uuid_UUID parse_hex (PyStr s) = parse_hex s"
| "uuid_UUID parse_hex (PyDatetime d) = Inl TypeError"
| "uuid_UUID parse_hex v = Inl AttributeError"

text \<open>
  \<^verbatim>\<open>
  @field_validator('fileIds')
  def validate_file_ids(cls, v):
      try:
          uuid.UUID(v)
          return v
      except ValueError:
          raise ValueError(f"Invalid UUID format: {v}")
  \<close>
\<close>

definition validate_file_ids :: "(py_str \<Rightarrow> py_error + int) \<Rightarrow> py_value \<Rightarrow> py_error + py_value" where
  "validate_file_ids parse_hex v =
     (case uuid_UUID parse_hex v of
        Inr u \<Rightarrow> Inr v
      | Inl ValueError \<Rightarrow> Inl ValueError
      | Inl e \<Rightarrow> Inl e)"

text \<open>
  The field \<^verbatim>\<open>fileIds: List[str] = Field(default=[])\<close>: an omitted field takes the default
  and the validator does not run; a supplied list of strings is handed to the validator
  as a list.
\<close>

definition QuestionModel_fileIds ::
  "(py_str \<Rightarrow> py_error + int) \<Rightarrow> py_str list option \<Rightarrow> py_value validation" where
  "QuestionModel_fileIds parse_hex supplied =
     (case supplied of
        None \<Rightarrow> Valid (PyList [])
      | Some xs \<Rightarrow> field_validator (validate_file_ids parse_hex (PyList (map PyStr xs))))"

section \<open>kb_external_models: GetConversationsModel.conversationStatusList\<close>

definition STATUSES :: "py_str list" where
  "STATUSES = [str ''ClosedByBot'', str ''ClosedByOperator'',
               str ''ClosedByOperatorWithBot'', str ''ClosedByTimer'']"

text \<open>
  \<^verbatim>\<open>
  @field_validator('conversationStatusList')
  def validate_conversation_status(cls, v):
      for i in v:
          if i not in STATUSES:
              raise ValueError(f'Status must be one of: {", ".join(STATUSES)}')
      return v
  \<close>
  The field is \<^verbatim>\<open>Optional[List[str]]\<close>, so \<open>v\<close> is a list of strings or \<^verbatim>\<open>None\<close>; iterating
  over \<^verbatim>\<open>None\<close> raises \<^verbatim>\<open>TypeError\<close>. The loop is the recursion \<open>check_statuses\<close>.
\<close>

fun check_statuses :: "py_str list \<Rightarrow> py_error + unit" where
  "check_statuses [] = Inr ()"
| "check_statuses (i # rest) =
     (if i \<notin> set STATUSES then Inl ValueError else check_statuses rest)"

definition validate_conversation_status :: "py_str list option \<Rightarrow> py_error + py_str list option" where
  "validate_conversation_status v =
     (case v of
        None \<Rightarrow> Inl TypeError
      | Some xs \<Rightarrow> (case check_statuses xs of Inl e \<Rightarrow> Inl e | Inr _ \<Rightarrow> Inr v))"

section \<open>kb_external_models: timestamp fields\<close>

text \<open>
  \<^verbatim>\<open>
  @field_validator('dt')
  def validate_dt_format(cls, v):
      if isinstance(v, str):
          try:
              return datetime.fromisoformat(v.replace('Z', '+00:00')).isoformat().split('+')[0]+'Z'
          except ValueError:
              raise ValueError("Invalid datetime format. Expected ISO 8601 format")
      elif isinstance(v, datetime):
          return v.isoformat().split('+')[0]+'Z'
      return v
  \<close>
  \<^verbatim>\<open>datetime.fromisoformat\<close> is the parameter \<open>fromisoformat\<close>. The field \<^verbatim>\<open>dt\<close> is
  declared \<^verbatim>\<open>datetime\<close>, so the value the validator receives from pydantic is a datetime:
  the second branch is the one that runs. The validators of \<^verbatim>\<open>_DateRange.from_\<close> and
  \<^verbatim>\<open>_DateRange.to\<close> have the same body.
\<close>

definition QuestionModel_validate_dt_format ::
  "(py_str \<Rightarrow> py_error + datetime) \<Rightarrow> py_value \<Rightarrow> py_error + py_value" where
  "QuestionModel_validate_dt_format fromisoformat v =
     (case v of
        PyStr s \<Rightarrow>
          (case fromisoformat (replace_char (of_char CHR ''Z'') (str ''+00:00'') s) of
             Inl ValueError \<Rightarrow> Inl ValueError
           | Inl e \<Rightarrow> Inl e
           | Inr d \<Rightarrow>
               (case index0 (split_char (of_char CHR ''+'') (isoformat d)) of
                  Inl e \<Rightarrow> Inl e
                | Inr p \<Rightarrow> Inr (PyStr (p @ str ''Z''))))
      | PyDatetime d \<Rightarrow>
          (case index0 (split_char (of_char CHR ''+'') (isoformat d)) of
             Inl e \<Rightarrow> Inl e
           | Inr p \<Rightarrow> Inr (PyStr (p @ str ''Z'')))
      | _ \<Rightarrow> Inr v)"

definition DateRange_validate_dt_format ::
  "(py_str \<Rightarrow> py_error + datetime) \<Rightarrow> py_value \<Rightarrow> py_error + py_value" where
  "DateRange_validate_dt_format fromisoformat v =
     (case v of
        PyStr s \<Rightarrow>
          (case fromisoformat (replace_char (of_char CHR ''Z'') (str ''+00:00'') s) of
             Inl ValueError \<Rightarrow> Inl ValueError
           | Inl e \<Rightarrow> Inl e
           | Inr d \<Rightarrow>
               (case index0 (split_char (of_char CHR ''+'') (isoformat d)) of
                  Inl e \<Rightarrow> Inl e
                | Inr p \<Rightarrow> Inr (PyStr (p @ str ''Z''))))
      | PyDatetime d \<Rightarrow>
          (case index0 (split_char (of_char CHR ''+'') (isoformat d)) of
             Inl e \<Rightarrow> Inl e
           | Inr p \<Rightarrow> Inr (PyStr (p @ str ''Z'')))
      | _ \<Rightarrow> Inr v)"

definition DateRange_validate_to_date ::
  "(py_str \<Rightarrow> py_error + datetime) \<Rightarrow> py_value \<Rightarrow> py_error + py_value" where
  "DateRange_validate_to_date fromisoformat v =
     (case v of
        PyStr s \<Rightarrow>
          (case fromisoformat (replace_char (of_char CHR ''Z'') (str ''+00:00'') s) of
             Inl ValueError \<Rightarrow> Inl ValueError
           | Inl e \<Rightarrow> Inl e
           | Inr d \<Rightarrow>
               (case index0 (split_char (of_char CHR ''+'') (isoformat d)) of
                  Inl e \<Rightarrow> Inl e
                | Inr p \<Rightarrow> Inr (PyStr (p @ str ''Z''))))
      | PyDatetime d \<Rightarrow>
          (case index0 (split_char (of_char CHR ''+'') (isoformat d)) of
             Inl e \<Rightarrow> Inl e
           | Inr p \<Rightarrow> Inr (PyStr (p @ str ''Z'')))
      | _ \<Rightarrow> Inr v)"

section \<open>kb_external_models: \_Interval\<close>




section \<open>kb_external_models: GetConversationsModel.tsTo\<close>

text \<open>
  \<^verbatim>\<open>
  @field_validator('tsTo')
  def validate_date_range(cls, v, values):
      if 'tsFrom' in values and values['tsFrom'] and v:
          if v <= values['tsFrom']:
              raise ValueError('tsTo must be greater than tsFrom')
      return v
  \<close>
  The field is \<^verbatim>\<open>Optional[datetime]\<close>: \<open>v\<close> is a datetime or \<^verbatim>\<open>None\<close>. The conjunction
  is evaluated from the left and stops at the first operand that is false or raises.
\<close>

definition validate_date_range :: "datetime option \<Rightarrow> py_obj \<Rightarrow> py_error + datetime option" where
  "validate_date_range v values =
     (case py_contains ''tsFrom'' values of
        Inl e \<Rightarrow> Inl e
      | Inr False \<Rightarrow> Inr v
      | Inr True \<Rightarrow>
          (case py_getitem values ''tsFrom'' of
             Inl e \<Rightarrow> Inl e
           | Inr f \<Rightarrow>
               if truthy f then
                 (case v of
                    None \<Rightarrow> Inr v
                  | Some d \<Rightarrow>
                      (case datetime_le_value d f of
                         Inl e \<Rightarrow> Inl e
                       | Inr le \<Rightarrow> if le then Inl ValueError else Inr v))
               else Inr v))"

text \<open>
  The fields \<^verbatim>\<open>tsFrom\<close> and \<^verbatim>\<open>tsTo\<close> of GetConversationsModel, in the order of their
  declaration. \<^verbatim>\<open>tsFrom\<close> has no validator; an omitted field is \<^verbatim>\<open>None\<close>. The validator of
  \<^verbatim>\<open>tsTo\<close> runs when the input supplies \<^verbatim>\<open>tsTo\<close>, and pydantic calls it with the
  \<^verbatim>\<open>ValidationInfo\<close> that holds \<^verbatim>\<open>tsFrom\<close>. An input value is \<open>None\<close> for an omitted
  field, \<open>Some None\<close> for an explicit \<^verbatim>\<open>None\<close>, \<open>Some (Some d)\<close> for a timestamp.
\<close>

definition value_of_optional :: "datetime option \<Rightarrow> py_value" where
  "value_of_optional x = (case x of None \<Rightarrow> PyNone | Some d \<Rightarrow> PyDatetime d)"

definition GetConversationsModel_ts ::
  "datetime option option \<Rightarrow> datetime option option
     \<Rightarrow> (datetime option \<times> datetime option) validation" where
  "GetConversationsModel_ts tsFrom_in tsTo_in =
     (let tsFrom = (case tsFrom_in of None \<Rightarrow> None | Some x \<Rightarrow> x) in
      case tsTo_in of
        None \<Rightarrow> Valid (tsFrom, None)
      | Some v \<Rightarrow>
          (case field_validator
                  (validate_date_range v
                     (ValidationInfo [''tsFrom'' \<mapsto> value_of_optional tsFrom])) of
             Valid tsTo \<Rightarrow> Valid (tsFrom, tsTo)
           | ValidationError \<Rightarrow> ValidationError
           | Raised e \<Rightarrow> Raised e))"

text \<open>
  The fields \<^verbatim>\<open>tsFrom\<close>, \<^verbatim>\<open>tsTo\<close> and \<^verbatim>\<open>conversationStatusList\<close> of one input, validated in
  the order of their declaration. The fields declared between them (\<^verbatim>\<open>limit\<close>, \<^verbatim>\<open>page\<close>,
  \<^verbatim>\<open>orderDirection\<close>) have no validator. The status list of the input is \<open>None\<close> when
  omitted and \<open>Some v\<close> when supplied, and the validator runs on a supplied value.
\<close>

definition GetConversationsModel_validate ::
  "datetime option option \<Rightarrow> datetime option option \<Rightarrow> py_str list option option
     \<Rightarrow> ((datetime option \<times> datetime option) \<times> py_str list option) validation" where
  "GetConversationsModel_validate tsFrom_in tsTo_in conversationStatusList_in =
     both (GetConversationsModel_ts tsFrom_in tsTo_in)
          (case conversationStatusList_in of
             None \<Rightarrow> Valid None
           | Some v \<Rightarrow> field_validator (validate_conversation_status v))"

section \<open>Floating point\<close>

text \<open>
  A finite \<^verbatim>\<open>float\<close> is the rational number it denotes exactly. \<open>to_double\<close> is the
  conversion of a real number to the nearest binary64 value, ties to the even mantissa
  (what a literal such as \<^verbatim>\<open>0.333\<close> and the function \<^verbatim>\<open>strtod\<close> do): the exponent \<open>e\<close> of
  the binade of \<open>x\<close>, not below that of the subnormal numbers, and the 53-bit multiple of
  \<open>2^(e - 52)\<close> nearest to \<open>x\<close>.
\<close>

definition round_half_even :: "rat \<Rightarrow> int" where
  "round_half_even x =
     (let f = \<lfloor>x\<rfloor>; r = x - of_int f
      in if r < 1 / 2 then f else if 1 / 2 < r then f + 1 else if even f then f else f + 1)"

definition pow2 :: "int \<Rightarrow> rat" where
  "pow2 e = (if 0 \<le> e then 2 ^ nat e else 1 / 2 ^ nat (- e))"

fun bit_length :: "nat \<Rightarrow> nat" where
  "bit_length n = (if n = 0 then 0 else Suc (bit_length (n div 2)))"

declare bit_length.simps [simp del]

text \<open>For \<open>0 < x\<close>, the integer \<open>e\<close> with \<open>2^e \<le> x < 2^(e + 1)\<close>.\<close>

definition floor_log2 :: "rat \<Rightarrow> int" where
  "floor_log2 x =
     (let p = fst (quotient_of x); q = snd (quotient_of x);
          d = int (bit_length (nat p)) - int (bit_length (nat q))
      in if pow2 d \<le> x then d else d - 1)"

definition to_double :: "rat \<Rightarrow> rat" where
  "to_double x =
     (if x = 0 then 0
      else let e = max (floor_log2 \<bar>x\<bar>) (- 1022); u = pow2 (e - 52)
           in sgn x * of_int (round_half_even (\<bar>x\<bar> / u)) * u)"

text \<open>
  \<^verbatim>\<open>round(v, ndigits)\<close> for a finite float and \<open>0 \<le> ndigits\<close>: CPython prints the exact
  value of \<open>v\<close> with \<open>ndigits\<close> decimals, correctly rounded, ties to even, and converts the
  decimal text back to the nearest float.
\<close>

definition py_round :: "rat \<Rightarrow> nat \<Rightarrow> rat" where
  "py_round v ndigits =
     to_double (of_int (round_half_even (v * 10 ^ ndigits)) / 10 ^ ndigits)"

section \<open>kb_crud_models: pagination parameters\<close>

text \<open>
  The integer query parameters of SuggestedDocumentsParamsModel and of
  GetParaphrasesyParamsModel. The input is the list of the items of the mapping the model
  is built from, in the order they were supplied; a parameter is looked up by its name.
  A value is an integer or \<^verbatim>\<open>None\<close>. Neither class declares an alias between \<^verbatim>\<open>count\<close> and
  \<^verbatim>\<open>limit\<close> or \<^verbatim>\<open>limit_paraphrases\<close>, and neither has a validator.
\<close>

type_synonym params = "(string \<times> int option) list"

text \<open>\<^verbatim>\<open>Optional[int] = Field(default=d, ge=lo)\<close>: omitted, \<^verbatim>\<open>None\<close>, or an integer.\<close>

fun optional_int_ge :: "int \<Rightarrow> int option \<Rightarrow> int option option \<Rightarrow> int option validation" where
  "optional_int_ge lo d None = Valid d"
| "optional_int_ge lo d (Some None) = Valid None"
| "optional_int_ge lo d (Some (Some i)) = (if lo \<le> i then Valid (Some i) else ValidationError)"

text \<open>\<^verbatim>\<open>int = Field(..., gt=lo)\<close>: a required integer.\<close>

fun required_int_gt :: "int \<Rightarrow> int option option \<Rightarrow> int validation" where
  "required_int_gt lo (Some (Some i)) = (if lo < i then Valid i else ValidationError)"
| "required_int_gt lo x = ValidationError"

text \<open>
  \<^verbatim>\<open>
  class SuggestedDocumentsParamsModel(BaseModel):
      limit: Optional[int] = Field(default=None, ge=1)
      offset: Optional[int] = Field(default=0, ge=0)
      count: Optional[int] = Field(default=None, ge=1)
  \<close>
\<close>

record SuggestedDocumentsParamsModel =
  limit :: "int option"
  offset :: "int option"
  count :: "int option"

definition SuggestedDocumentsParamsModel_validate ::
  "params \<Rightarrow> SuggestedDocumentsParamsModel validation" where
  "SuggestedDocumentsParamsModel_validate kv =
     (case both (optional_int_ge 1 None (map_of kv ''limit''))
            (both (optional_int_ge 0 (Some 0) (map_of kv ''offset''))
                  (optional_int_ge 1 None (map_of kv ''count''))) of
        Valid (l, off, c) \<Rightarrow> Valid \<lparr>limit = l, offset = off, count = c\<rparr>
      | ValidationError \<Rightarrow> ValidationError
      | Raised e \<Rightarrow> Raised e)"

text \<open>
  \<^verbatim>\<open>
  class GetParaphrasesyParamsModel(BaseModel):
      document_id: int = Field(..., gt=0)
      limit_paraphrases: Optional[int] = Field(default=None, ge=1)
      offset_paraphrases: Optional[int] = Field(default=None, ge=0)
      offset: Optional[int] = Field(default=0, ge=0)
      count: Optional[int] = Field(default=None, ge=1)
  \<close>
\<close>

record GetParaphrasesyParamsModel =
  document_id :: int
  limit_paraphrases :: "int option"
  offset_paraphrases :: "int option"
  offset :: "int option"
  count :: "int option"

definition GetParaphrasesyParamsModel_validate ::
  "params \<Rightarrow> GetParaphrasesyParamsModel validation" where
  "GetParaphrasesyParamsModel_validate kv =
     (case both (required_int_gt 0 (map_of kv ''document_id''))
            (both (optional_int_ge 1 None (map_of kv ''limit_paraphrases''))
               (both (optional_int_ge 0 None (map_of kv ''offset_paraphrases''))
                  (both (optional_int_ge 0 (Some 0) (map_of kv ''offset''))
                        (optional_int_ge 1 None (map_of kv ''count''))))) of
        Valid (d, l, op, off, c) \<Rightarrow>
          Valid \<lparr>document_id = d, limit_paraphrases = l, offset_paraphrases = op,
                 offset = off, count = c\<rparr>
      | ValidationError \<Rightarrow> ValidationError
      | Raised e \<Rightarrow> Raised e)"

section \<open>kb_crud_models: DocumentModel\<close>

text \<open>
  The fields of DocumentModel the validators below read or write; the other fields
  (status, dates, paraphrases, attachments, history) are the rest of the record.
\<close>

record DocumentModel =
  document_id :: int
  name :: py_str
  question :: py_str
  answer :: py_str

text \<open>
  \<^verbatim>\<open>
  @field_validator('question')
  @classmethod
  def validate_question_length(cls, v: str) -> str:
      if len(v.strip()) == 0:
          raise ValueError(...)
      if len(v) > 1000:
          raise ValueError(...)
      return v.strip()

  @field_validator('answer')
  @classmethod
  def validate_answer_length(cls, v: str) -> str:
      if len(v.strip()) == 0:
          raise ValueError(...)
      return v.strip()
  \<close>
\<close>

definition validate_question_length :: "py_str \<Rightarrow> py_error + py_str" where
  "validate_question_length v =
     (if length (strip v) = 0 then Inl ValueError
      else if 1000 < length v then Inl ValueError
      else Inr (strip v))"

definition validate_answer_length :: "py_str \<Rightarrow> py_error + py_str" where
  "validate_answer_length v =
     (if length (strip v) = 0 then Inl ValueError else Inr (strip v))"

text \<open>
  \<^verbatim>\<open>document_id: int = Field(..., ge=0)\<close>, \<^verbatim>\<open>name: str = Field(...)\<close>,
  \<^verbatim>\<open>question: str = Field(..., min_length=1, max_length=1000)\<close> and
  \<^verbatim>\<open>answer: str = Field(..., min_length=1)\<close>, from an input that supplies the four.
\<close>

definition DocumentModel_validate ::
  "int \<Rightarrow> py_str \<Rightarrow> py_str \<Rightarrow> py_str \<Rightarrow> DocumentModel validation" where
  "DocumentModel_validate document_id_in name_in question_in answer_in =
     (case both (if 0 \<le> document_id_in then Valid document_id_in else ValidationError)
             (both (Valid name_in)
                (both (after (constrained_str 1 (Some 1000) question_in) validate_question_length)
                      (after (constrained_str 1 None answer_in) validate_answer_length))) of
        Valid (i, n, q, a) \<Rightarrow>
          Valid \<lparr>document_id = i, name = n, question = q, answer = a\<rparr>
      | ValidationError \<Rightarrow> ValidationError
      | Raised e \<Rightarrow> Raised e)"

section \<open>kb_crud_models: ServiceCreateModel\<close>

text \<open>
  \<^verbatim>\<open>
  @field_validator('max_trainable_score')
  @classmethod
  def validate_trainable_score(cls, v: float, values) -> float:
      if 'trainable' in values and not values['trainable'] and v > 0:
          raise ValueError(...)
      return round(v, 2)
  \<close>
\<close>

definition validate_trainable_score :: "rat \<Rightarrow> py_obj \<Rightarrow> py_error + rat" where
  "validate_trainable_score v values =
     (case py_contains ''trainable'' values of
        Inl e \<Rightarrow> Inl e
      | Inr False \<Rightarrow> Inr (py_round v 2)
      | Inr True \<Rightarrow>
          (case py_getitem values ''trainable'' of
             Inl e \<Rightarrow> Inl e
           | Inr t \<Rightarrow>
               if \<not> truthy t \<and> 0 < v then Inl ValueError else Inr (py_round v 2)))"

text \<open>
  \<^verbatim>\<open>max_trainable_score: float = Field(default=0.95, ge=0.0, le=1.0)\<close>. \<open>data\<close> holds the
  fields declared before it that were valid (\<^verbatim>\<open>name\<close>, \<^verbatim>\<open>preset\<close>, \<^verbatim>\<open>trainable\<close>); pydantic
  passes it inside a \<^verbatim>\<open>ValidationInfo\<close>. An omitted field takes the default and the
  validator does not run.
\<close>

definition ServiceCreateModel_max_trainable_score ::
  "(string \<rightharpoonup> py_value) \<Rightarrow> rat option \<Rightarrow> rat validation" where
  "ServiceCreateModel_max_trainable_score data supplied =
     (case supplied of
        None \<Rightarrow> Valid (to_double (95 / 100))
      | Some v \<Rightarrow>
          after (constrained_float 0 1 v) (\<lambda>x. validate_trainable_score x (ValidationInfo data)))"

text \<open>
  \<^verbatim>\<open>
  @field_validator('inequal_lang_penalty')
  @classmethod
  def validate_penalty(cls, v: float) -> float:
      return round(v, 2)
  \<close>
  for \<^verbatim>\<open>inequal_lang_penalty: float = Field(default=0.0, ge=0.0, le=1.0)\<close>.
\<close>

definition validate_penalty :: "rat \<Rightarrow> py_error + rat" where
  "validate_penalty v = Inr (py_round v 2)"

definition ServiceCreateModel_inequal_lang_penalty :: "rat option \<Rightarrow> rat validation" where
  "ServiceCreateModel_inequal_lang_penalty supplied =
     (case supplied of
        None \<Rightarrow> Valid 0
      | Some v \<Rightarrow> after (constrained_float 0 1 v) validate_penalty)"

text \<open>
  \<^verbatim>\<open>
  @field_validator('documents')
  @classmethod
  def validate_documents(cls, v: List[DocumentModel]) -> List[DocumentModel]:
      if not v:
          return v
      document_ids = [doc.document_id for doc in v]
      if len(document_ids) != len(set(document_ids)):
          raise ValueError(...)
      questions = [doc.question.lower().strip() for doc in v]
      if len(questions) != len(set(questions)):
          raise ValueError(...)
      return v
  \<close>
  \<^verbatim>\<open>str.lower\<close> follows the case mappings of the Unicode database; it is the parameter
  \<open>lower\<close>.
\<close>

definition validate_documents ::
  "(py_str \<Rightarrow> py_str) \<Rightarrow> DocumentModel list \<Rightarrow> py_error + DocumentModel list" where
  "validate_documents lower v =
     (if v = [] then Inr v
      else let document_ids = map document_id v in
        if length document_ids \<noteq> card (set document_ids) then Inl ValueError
        else let questions = map (\<lambda>doc. strip (lower (question doc))) v in
          if length questions \<noteq> card (set questions) then Inl ValueError
          else Inr v)"

text \<open>
  On ASCII text \<^verbatim>\<open>str.lower\<close> maps \<^verbatim>\<open>A\<close> to \<^verbatim>\<open>Z\<close> to \<^verbatim>\<open>a\<close> to \<^verbatim>\<open>z\<close> and leaves every other
  character; \<open>ascii_lower\<close> stands for \<open>lower\<close> where the validators are run on ASCII
  examples.
\<close>

definition ascii_lower :: "py_str \<Rightarrow> py_str" where
  "ascii_lower s = map (\<lambda>c. if 65 \<le> c \<and> c \<le> 90 then c + 32 else c) s"

section \<open>Properties\<close>

subsection \<open>The calendar: the order of the fields is the order of time\<close>




































subsection \<open>Stripping whitespace\<close>

lemma rstrip_Nil_iff: "rstrip s = [] \<longleftrightarrow> (\<forall>c \<in> set s. isspace c)"
  by (simp add: rstrip_def dropWhile_eq_Nil_conv)

lemma rstrip_last: "rstrip s \<noteq> [] \<Longrightarrow> \<not> isspace (last (rstrip s))"
  by (simp add: rstrip_def last_rev hd_dropWhile)

lemma strip_Nil_iff: "strip s = [] \<longleftrightarrow> (\<forall>c \<in> set s. isspace c)"
proof
  assume "strip s = []"
  then have all: "\<forall>c \<in> set (rstrip s). isspace c"
    by (simp add: strip_def lstrip_def dropWhile_eq_Nil_conv)
  have "rstrip s = []"
  proof (rule ccontr)
    assume ne: "rstrip s \<noteq> []"
    then have "last (rstrip s) \<in> set (rstrip s)" by simp
    with all rstrip_last [OF ne] show False by blast
  qed
  then show "\<forall>c \<in> set s. isspace c" by (simp add: rstrip_Nil_iff)
next
  assume "\<forall>c \<in> set s. isspace c"
  then have "rstrip s = []" by (simp add: rstrip_Nil_iff)
  then show "strip s = []" by (simp add: strip_def lstrip_def)
qed

lemma strip_hd: "strip s \<noteq> [] \<Longrightarrow> \<not> isspace (hd (strip s))"
  by (simp add: strip_def lstrip_def hd_dropWhile)

lemma last_dropWhile_nonempty: "dropWhile P xs \<noteq> [] \<Longrightarrow> last (dropWhile P xs) = last xs"
  by (metis last_appendR takeWhile_dropWhile_id)

lemma strip_last: "strip s \<noteq> [] \<Longrightarrow> \<not> isspace (last (strip s))"
proof -
  assume ne: "strip s \<noteq> []"
  then have r: "rstrip s \<noteq> []"
    by (auto simp: strip_def lstrip_def)
  have "last (strip s) = last (rstrip s)"
    using ne unfolding strip_def lstrip_def by (rule last_dropWhile_nonempty)
  with rstrip_last [OF r] show ?thesis by simp
qed

lemma strip_idem: "strip (strip s) = strip s"
proof (cases "strip s = []")
  case True
  have "strip [] = []" by (simp add: strip_def lstrip_def rstrip_def)
  with True show ?thesis by simp
next
  case False
  let ?t = "strip s"
  have "\<not> isspace (hd (rev ?t))"
    using strip_last [OF False] False by (simp add: hd_rev)
  then have "dropWhile isspace (rev ?t) = rev ?t"
    using False by (cases "rev ?t") auto
  then have "rstrip ?t = ?t" by (simp add: rstrip_def)
  moreover have "dropWhile isspace ?t = ?t"
    using strip_hd [OF False] False by (cases ?t) auto
  ultimately show ?thesis by (simp add: strip_def lstrip_def)
qed

lemma strip_Nil [simp]: "strip [] = []"
  by (simp add: strip_def lstrip_def rstrip_def)

lemma question_field:
  "after (constrained_str 1 (Some 1000) q) validate_question_length =
     (if strip q = [] \<or> 1000 < length q then ValidationError else Valid (strip q))"
  by (cases "q = []")
    (auto simp: after_def constrained_str_def validate_question_length_def field_validator_def)

lemma answer_field:
  "after (constrained_str 1 None a) validate_answer_length =
     (if strip a = [] then ValidationError else Valid (strip a))"
  by (cases "a = []")
    (auto simp: after_def constrained_str_def validate_answer_length_def field_validator_def)

lemma DocumentModel_validate_eq:
  "DocumentModel_validate i n q a =
     (if i < 0 \<or> strip q = [] \<or> 1000 < length q \<or> strip a = [] then ValidationError
      else Valid \<lparr>document_id = i, name = n, question = strip q, answer = strip a\<rparr>)"
  unfolding DocumentModel_validate_def question_field answer_field by simp

lemma length_card_distinct: "length xs \<noteq> card (set xs) \<longleftrightarrow> \<not> distinct xs"
  using card_distinct [of xs] distinct_card [of xs] by auto

lemma not_distinct_nth:
  assumes "i < j" "j < length xs" "xs ! i = xs ! j"
  shows "\<not> distinct xs"
proof
  assume "distinct xs"
  then have "i = j"
    using assms nth_eq_iff_index_eq [of xs i j] by simp
  with assms(1) show False by simp
qed

lemma validate_documents_eq:
  "validate_documents lower v =
     (if distinct (map document_id v) \<and> distinct (map (\<lambda>doc. strip (lower (question doc))) v)
      then Inr v else Inl ValueError)"
  unfolding validate_documents_def Let_def length_card_distinct
  by (cases "v = []") auto

subsection \<open>Pagination parameters\<close>

lemma map_of_swap:
  "fst a \<noteq> fst b \<Longrightarrow> map_of (a # b # kv) = map_of (b # a # kv)"
  by (cases a; cases b) (auto simp: fun_upd_twist)

lemma both_Valid:
  "both a b = Valid p \<longleftrightarrow> (\<exists>x y. a = Valid x \<and> b = Valid y \<and> p = (x, y))"
  by (cases a; cases b) auto

lemma optional_int_ge_Valid:
  "optional_int_ge lo None x = Valid y \<Longrightarrow> y = (case x of None \<Rightarrow> None | Some z \<Rightarrow> z)"
  by (cases "(lo, None :: int option, x)" rule: optional_int_ge.cases) (auto split: if_splits)

lemma GetParaphrasesyParamsModel_fields:
  assumes "GetParaphrasesyParamsModel_validate kv = Valid r"
  shows "optional_int_ge 1 None (map_of kv ''count'') = Valid (GetParaphrasesyParamsModel.count r)"
    and "optional_int_ge 1 None (map_of kv ''limit_paraphrases'') = Valid (limit_paraphrases r)"
proof -
  obtain p where p: "both (required_int_gt 0 (map_of kv ''document_id''))
            (both (optional_int_ge 1 None (map_of kv ''limit_paraphrases''))
               (both (optional_int_ge 0 None (map_of kv ''offset_paraphrases''))
                  (both (optional_int_ge 0 (Some 0) (map_of kv ''offset''))
                        (optional_int_ge 1 None (map_of kv ''count''))))) = Valid p"
    and r: "r = (case p of (d, l, op, off, c) \<Rightarrow>
          \<lparr>GetParaphrasesyParamsModel.document_id = d, limit_paraphrases = l, offset_paraphrases = op,
                 offset = off, count = c\<rparr>)"
    using assms unfolding GetParaphrasesyParamsModel_validate_def
    by (auto split: validation.splits)
  from p r show "optional_int_ge 1 None (map_of kv ''count'') = Valid (GetParaphrasesyParamsModel.count r)"
    by (auto simp: both_Valid)
  from p r show "optional_int_ge 1 None (map_of kv ''limit_paraphrases'') = Valid (limit_paraphrases r)"
    by (auto simp: both_Valid)
qed

lemma SuggestedDocumentsParamsModel_fields:
  assumes "SuggestedDocumentsParamsModel_validate kv = Valid r"
  shows "optional_int_ge 1 None (map_of kv ''count'') = Valid (SuggestedDocumentsParamsModel.count r)"
    and "optional_int_ge 1 None (map_of kv ''limit'') = Valid (limit r)"
proof -
  obtain p where p: "both (optional_int_ge 1 None (map_of kv ''limit''))
            (both (optional_int_ge 0 (Some 0) (map_of kv ''offset''))
                  (optional_int_ge 1 None (map_of kv ''count''))) = Valid p"
    and r: "r = (case p of (l, off, c) \<Rightarrow> \<lparr>limit = l, SuggestedDocumentsParamsModel.offset = off, SuggestedDocumentsParamsModel.count = c\<rparr>)"
    using assms unfolding SuggestedDocumentsParamsModel_validate_def
    by (auto split: validation.splits)
  from p r show "optional_int_ge 1 None (map_of kv ''count'') = Valid (SuggestedDocumentsParamsModel.count r)"
    by (auto simp: both_Valid)
  from p r show "optional_int_ge 1 None (map_of kv ''limit'') = Valid (limit r)"
    by (auto simp: both_Valid)
qed

subsection \<open>Rounding\<close>

lemma round_half_even_bound: "\<bar>x - of_int (round_half_even x)\<bar> \<le> 1 / 2"
proof -
  have "of_int \<lfloor>x\<rfloor> \<le> x" "x < of_int \<lfloor>x\<rfloor> + 1"
    by linarith+
  then show ?thesis
    by (auto simp: round_half_even_def Let_def)
qed

lemma round_hundredths:
  "\<bar>v - of_int (round_half_even (v * 100)) / 100\<bar> \<le> 1 / 200"
  using round_half_even_bound [of "v * 100"] by (simp add: field_simps)

lemma round_hundredths_range:
  assumes "0 \<le> v" "v \<le> 1"
  shows "0 \<le> round_half_even (v * 100)" "round_half_even (v * 100) \<le> 100"
proof -
  have b: "\<bar>v * 100 - of_int (round_half_even (v * 100))\<bar> \<le> 1 / 2"
    by (rule round_half_even_bound)
  have "(of_int (round_half_even (v * 100)) :: rat) \<ge> - 1 / 2"
    using b assms by linarith
  then have "(of_int (round_half_even (v * 100)) :: rat) > of_int (- 1)"
    by simp
  then have "round_half_even (v * 100) > - 1"
    by (simp only: of_int_less_iff)
  then show "0 \<le> round_half_even (v * 100)" by simp
  have "(of_int (round_half_even (v * 100)) :: rat) \<le> 100 + 1 / 2"
    using b assms by linarith
  then have "(of_int (round_half_even (v * 100)) :: rat) < of_int 101"
    by simp
  then have "round_half_even (v * 100) < 101"
    by (simp only: of_int_less_iff)
  then show "round_half_even (v * 100) \<le> 100" by simp
qed

lemma penalty_field:
  "ServiceCreateModel_inequal_lang_penalty (Some v) =
     (if v < 0 \<or> 1 < v then ValidationError else Valid (py_round v 2))"
  by (simp add: ServiceCreateModel_inequal_lang_penalty_def after_def constrained_float_def
      validate_penalty_def field_validator_def)

lemma literal_0333: "to_double (333 / 1000) = 5998794703657501 / 18014398509481984"
  by code_simp

lemma round_0333: "py_round (5998794703657501 / 18014398509481984) 2 = to_double (33 / 100)"
  by code_simp


lemma literal_04_range: "0 \<le> to_double (4 / 10) \<and> to_double (4 / 10) \<le> 1"
  by code_simp

lemma bit_length_mono: "m \<le> n \<Longrightarrow> bit_length m \<le> bit_length n"
proof (induction n arbitrary: m rule: bit_length.induct)
  case (1 n)
  show ?case
  proof (cases "m = 0")
    case True
    then show ?thesis by (simp add: bit_length.simps [of 0])
  next
    case False
    with "1.prems" have n: "n \<noteq> 0" by simp
    have "m div 2 \<le> n div 2"
      using "1.prems" by (rule div_le_mono)
    then have "bit_length (m div 2) \<le> bit_length (n div 2)"
      using n by (rule "1.IH" [rotated])
    then show ?thesis
      using False n by (simp add: bit_length.simps [of m] bit_length.simps [of n])
  qed
qed

lemma floor_log2_le_0:
  assumes "0 < x" "x \<le> 1"
  shows "floor_log2 x \<le> 0"
proof -
  obtain p q where pq: "quotient_of x = (p, q)"
    by (cases "quotient_of x")
  have q: "0 < q" using pq by (rule quotient_of_denom_pos)
  have x: "x = of_int p / of_int q" using pq by (rule quotient_of_div)
  have "(of_int p :: rat) \<le> of_int q"
    using assms(2) q by (simp add: x pos_divide_le_eq)
  then have "p \<le> q" by simp
  then have "nat p \<le> nat q" by simp
  then have "bit_length (nat p) \<le> bit_length (nat q)"
    by (rule bit_length_mono)
  then show ?thesis
    by (simp add: floor_log2_def pq Let_def)
qed

lemma pow2_small:
  assumes "e \<le> 0"
  shows "0 < pow2 (e - 52)" "pow2 (e - 52) \<le> 1 / 2 ^ 52"
proof -
  have eq: "pow2 (e - 52) = 1 / 2 ^ nat (52 - e)"
    using assms by (simp add: pow2_def)
  show "0 < pow2 (e - 52)" by (simp add: eq)
  have "(2::rat) ^ 52 \<le> 2 ^ nat (52 - e)"
    using assms by (intro power_increasing) auto
  then show "pow2 (e - 52) \<le> 1 / 2 ^ 52"
    unfolding eq by (intro divide_left_mono) auto
qed

lemma to_double_error:
  assumes "0 < x" "x \<le> 1"
  shows "\<bar>to_double x - x\<bar> \<le> 1 / 2 ^ 53"
proof -
  define e where "e = max (floor_log2 x) (- 1022)"
  define u where "u = pow2 (e - 52)"
  define m where "m = round_half_even (x / u)"
  have "e \<le> 0"
    using floor_log2_le_0 [OF assms] by (simp add: e_def)
  then have u: "0 < u" "u \<le> 1 / 2 ^ 52"
    unfolding u_def by (rule pow2_small)+
  have td: "to_double x = of_int m * u"
    using assms(1) by (simp add: to_double_def Let_def e_def u_def m_def)
  have "\<bar>x / u - of_int m\<bar> \<le> 1 / 2"
    unfolding m_def by (rule round_half_even_bound)
  then have "\<bar>x / u - of_int m\<bar> * u \<le> 1 / 2 * u"
    using u(1) by (intro mult_right_mono) auto
  moreover have "\<bar>x / u - of_int m\<bar> * u = \<bar>x - of_int m * u\<bar>"
  proof -
    have "\<bar>x / u - of_int m\<bar> * u = \<bar>(x / u - of_int m) * u\<bar>"
      using u(1) by (simp add: abs_mult)
    also have "(x / u - of_int m) * u = x - of_int m * u"
      using u(1) by (simp add: field_simps)
    finally show ?thesis .
  qed
  ultimately have "\<bar>x - of_int m * u\<bar> \<le> 1 / 2 * u" by simp
  also have "1 / 2 * u \<le> 1 / 2 * (1 / 2 ^ 52)"
    using u(2) by (intro mult_left_mono) auto
  also have "\<dots> = 1 / 2 ^ 53" by simp
  finally show ?thesis
    by (simp add: td abs_minus_commute)
qed

lemma to_double_hundredth:
  assumes "0 \<le> k" "k \<le> 100"
  shows "\<bar>to_double (of_int k / 100) - of_int k / 100\<bar> \<le> 1 / 2 ^ 53"
proof (cases "k = 0")
  case True
  then show ?thesis by (simp add: to_double_def)
next
  case False
  with assms(1) have "0 < k" by simp
  then have "(0::rat) < of_int k / 100" by simp
  moreover have "(of_int k :: rat) / 100 \<le> 1"
    using assms(2) by simp
  ultimately show ?thesis by (rule to_double_error)
qed

lemma literal_033: "to_double (33 / 100) = 5944751508129055 / 18014398509481984"
  by code_simp

subsection \<open>The validators\<close>

lemma check_statuses_iff:
  "check_statuses xs = (if set xs \<subseteq> set STATUSES then Inr () else Inl ValueError)"
  by (induction xs) auto

text \<open>
  C10. A QuestionModel input that supplies a \<^verbatim>\<open>fileIds\<close> list is never accepted: the
  validator passes the list itself to \<^verbatim>\<open>uuid.UUID\<close>, which raises \<^verbatim>\<open>AttributeError\<close> whatever
  the strings in the list are and however a string would be parsed; the exception is not
  a \<^verbatim>\<open>ValueError\<close>, so it is not caught. Only an input that omits the field is accepted,
  with the default empty list.
\<close>

theorem fileIds_list_never_accepted:
  "validate_file_ids parse_hex (PyList vs) = Inl AttributeError
   \<and> QuestionModel_fileIds parse_hex (Some xs) = Raised AttributeError
   \<and> QuestionModel_fileIds parse_hex None = Valid (PyList [])"
  by (simp add: validate_file_ids_def QuestionModel_fileIds_def field_validator_def)

text \<open>
  C7. A GetConversationsModel input that supplies a \<^verbatim>\<open>conversationStatusList\<close> with an entry
  outside the four closing reasons is reported as a validation error only when it does
  not supply \<^verbatim>\<open>tsTo\<close>: then it is accepted exactly when every entry is one of ClosedByBot,
  ClosedByOperator, ClosedByOperatorWithBot, ClosedByTimer. When the input also supplies
  \<^verbatim>\<open>tsTo\<close>, the validator of \<^verbatim>\<open>tsTo\<close>, which runs first, leaves the constructor with
  \<^verbatim>\<open>TypeError\<close>, whatever the status list is.
\<close>

theorem status_list_with_tsTo_raises_TypeError:
  "GetConversationsModel_validate tsFrom_in (Some v) (Some (Some xs)) = Raised TypeError
   \<and> GetConversationsModel_validate tsFrom_in None (Some (Some xs)) =
       (if set xs \<subseteq> set STATUSES
        then Valid (((case tsFrom_in of None \<Rightarrow> None | Some x \<Rightarrow> x), None), Some xs)
        else ValidationError)"
  by (simp add: GetConversationsModel_validate_def GetConversationsModel_ts_def
      validate_date_range_def validate_conversation_status_def check_statuses_iff
      field_validator_def)

theorem status_list_with_tsTo_raises_TypeError_witness:
  "GetConversationsModel_validate None
     (Some (Some \<lparr>year = 2024, month = 1, day = 2, hour = 3, minute = 4, second = 5,
                   microsecond = 0, tzinfo = None, utcoffset = None\<rparr>))
     (Some (Some [str ''Open''])) = Raised TypeError
   \<and> GetConversationsModel_validate None None (Some (Some [str ''Open''])) = ValidationError
   \<and> GetConversationsModel_validate None None (Some (Some [str ''ClosedByBot'']))
       = Valid ((None, None), Some [str ''ClosedByBot''])"
  using status_list_with_tsTo_raises_TypeError
      [where tsFrom_in = None and xs = "[str ''Open'']" and v =
        "Some \<lparr>year = 2024, month = 1, day = 2, hour = 3, minute = 4, second = 5,
                microsecond = 0, tzinfo = None, utcoffset = None\<rparr>"]
    status_list_with_tsTo_raises_TypeError
      [where tsFrom_in = None and xs = "[str ''ClosedByBot'']" and v = None]
  by (simp add: STATUSES_def str_def)

lemma isoformat_east:
  "isoformat \<lparr>year = 2024, month = 1, day = 2, hour = 3, minute = 4, second = 5,
              microsecond = 0, tzinfo = Some tz, utcoffset = Some 7200000000\<rparr> = str ''2024-01-02T03:04:05+02:00''"
  by code_simp

lemma isoformat_west:
  "isoformat \<lparr>year = 2024, month = 1, day = 2, hour = 3, minute = 4, second = 5,
              microsecond = 0, tzinfo = Some tz, utcoffset = Some (- 18000000000)\<rparr> = str ''2024-01-02T03:04:05-05:00''"
  by code_simp

lemma cut_east:
  "index0 (split_char (of_char CHR ''+'') (str ''2024-01-02T03:04:05+02:00'')) =
     Inr (str ''2024-01-02T03:04:05'')"
  by code_simp

lemma cut_west:
  "index0 (split_char (of_char CHR ''+'') (str ''2024-01-02T03:04:05-05:00'')) =
     Inr (str ''2024-01-02T03:04:05-05:00'')"
  by code_simp

lemma str_append: "str a @ str b = str (a @ b)"
  by (simp add: str_def)

text \<open>
  C1. The timestamp validators do not convert to UTC: they print the datetime, cut the
  text at the first \<^verbatim>\<open>+\<close> and append \<^verbatim>\<open>Z\<close>. The datetime 2024-01-02T03:04:05+02:00 is
  stored as \<^verbatim>\<open>2024-01-02T03:04:05Z\<close>, not as \<^verbatim>\<open>2024-01-02T01:04:05Z\<close>, by each of the
  three validators; with a negative offset nothing is cut, and 2024-01-02T03:04:05-05:00
  is stored as \<^verbatim>\<open>2024-01-02T03:04:05-05:00Z\<close>, offset and \<^verbatim>\<open>Z\<close> together.
\<close>

theorem timestamp_offset_cut_not_converted:
  "QuestionModel_validate_dt_format fromisoformat
     (PyDatetime \<lparr>year = 2024, month = 1, day = 2, hour = 3, minute = 4, second = 5,
                  microsecond = 0, tzinfo = Some tz, utcoffset = Some 7200000000\<rparr>)
     = Inr (PyStr (str ''2024-01-02T03:04:05Z''))
   \<and> DateRange_validate_dt_format fromisoformat
     (PyDatetime \<lparr>year = 2024, month = 1, day = 2, hour = 3, minute = 4, second = 5,
                  microsecond = 0, tzinfo = Some tz, utcoffset = Some 7200000000\<rparr>)
     = Inr (PyStr (str ''2024-01-02T03:04:05Z''))
   \<and> DateRange_validate_to_date fromisoformat
     (PyDatetime \<lparr>year = 2024, month = 1, day = 2, hour = 3, minute = 4, second = 5,
                  microsecond = 0, tzinfo = Some tz, utcoffset = Some 7200000000\<rparr>)
     = Inr (PyStr (str ''2024-01-02T03:04:05Z''))
   \<and> QuestionModel_validate_dt_format fromisoformat
     (PyDatetime \<lparr>year = 2024, month = 1, day = 2, hour = 3, minute = 4, second = 5,
                  microsecond = 0, tzinfo = Some tz, utcoffset = Some (- 18000000000)\<rparr>)
     = Inr (PyStr (str ''2024-01-02T03:04:05-05:00Z''))"
  by (simp only: QuestionModel_validate_dt_format_def DateRange_validate_dt_format_def
      DateRange_validate_to_date_def py_value.case isoformat_east isoformat_west cut_east
      cut_west sum.case str_append append.simps simp_thms)




text \<open>
  C6. The validator of \<^verbatim>\<open>tsTo\<close> tests \<^verbatim>\<open>'tsFrom' in values\<close> on the \<^verbatim>\<open>ValidationInfo\<close>
  object pydantic passes, which raises \<^verbatim>\<open>TypeError\<close>: every input that supplies
  \<^verbatim>\<open>tsTo\<close> leaves the constructor with this exception, whatever the two timestamps
  are. An input with \<^verbatim>\<open>tsTo\<close> not later than \<^verbatim>\<open>tsFrom\<close> is therefore not reported as a
  validation error, and one with \<^verbatim>\<open>tsTo\<close> later than \<^verbatim>\<open>tsFrom\<close> is not accepted.
\<close>

theorem tsTo_validator_raises_TypeError:
  "validate_date_range v (ValidationInfo data) = Inl TypeError
   \<and> GetConversationsModel_ts tsFrom_in (Some v) = Raised TypeError"
  by (simp add: validate_date_range_def GetConversationsModel_ts_def field_validator_def)

text \<open>
  C9. A DocumentModel input whose question or answer is empty or consists of whitespace
  only is rejected with a validation error; in every accepted record the stored question
  and answer are the inputs with the whitespace stripped from both ends, are not empty,
  and neither begin nor end with whitespace.
\<close>

theorem document_blank_text_rejected:
  "(((\<forall>c \<in> set question_in. isspace c) \<or> (\<forall>c \<in> set answer_in. isspace c))
      \<longrightarrow> DocumentModel_validate i n question_in answer_in = ValidationError)
   \<and> (DocumentModel_validate i n question_in answer_in = Valid r
      \<longrightarrow> question r = strip question_in \<and> answer r = strip answer_in
          \<and> question r \<noteq> [] \<and> answer r \<noteq> []
          \<and> \<not> isspace (hd (question r)) \<and> \<not> isspace (last (question r))
          \<and> \<not> isspace (hd (answer r)) \<and> \<not> isspace (last (answer r))
          \<and> strip (question r) = question r \<and> strip (answer r) = answer r)"
proof (intro conjI impI)
  assume "(\<forall>c \<in> set question_in. isspace c) \<or> (\<forall>c \<in> set answer_in. isspace c)"
  then have "strip question_in = [] \<or> strip answer_in = []"
    by (simp add: strip_Nil_iff)
  then show "DocumentModel_validate i n question_in answer_in = ValidationError"
    by (auto simp: DocumentModel_validate_eq)
next
  assume v: "DocumentModel_validate i n question_in answer_in = Valid r"
  then have q: "strip question_in \<noteq> []" and a: "strip answer_in \<noteq> []"
    and r: "r = \<lparr>document_id = i, name = n, question = strip question_in,
                 answer = strip answer_in\<rparr>"
    by (auto simp: DocumentModel_validate_eq split: if_splits)
  show "question r = strip question_in" "answer r = strip answer_in"
    "question r \<noteq> []" "answer r \<noteq> []"
    "\<not> isspace (hd (question r))" "\<not> isspace (last (question r))"
    "\<not> isspace (hd (answer r))" "\<not> isspace (last (answer r))"
    "strip (question r) = question r" "strip (answer r) = answer r"
    using q a strip_hd [OF q] strip_last [OF q] strip_hd [OF a] strip_last [OF a]
    by (simp_all add: r strip_idem)
qed

theorem document_blank_text_rejected_witness:
  "DocumentModel_validate 3 (str ''n'') (str ''   '') (str ''yes'') = ValidationError
   \<and> DocumentModel_validate 3 (str ''n'') (str '' How? '') (str '' yes'') =
       Valid \<lparr>document_id = 3, name = str ''n'', question = str ''How?'',
              answer = str ''yes''\<rparr>"
proof -
  have blank: "\<forall>c \<in> set (str ''   ''). isspace c"
    by (simp add: str_def isspace_def)
  have 1: "DocumentModel_validate 3 (str ''n'') (str ''   '') (str ''yes'') = ValidationError"
    using document_blank_text_rejected
      [where question_in = "str ''   ''" and answer_in = "str ''yes''" and i = 3
         and n = "str ''n''"] blank
    by blast
  have 2: "DocumentModel_validate 3 (str ''n'') (str '' How? '') (str '' yes'') =
       Valid \<lparr>document_id = 3, name = str ''n'', question = str ''How?'',
              answer = str ''yes''\<rparr>"
    by (simp add: DocumentModel_validate_eq strip_def lstrip_def rstrip_def isspace_def
        str_def)
  from 1 2 show ?thesis by simp
qed

text \<open>
  C3. The validator of \<^verbatim>\<open>documents\<close> returns the list when the document ids are pairwise
  distinct and the questions, lower-cased and then stripped, are pairwise distinct, and
  raises \<^verbatim>\<open>ValueError\<close> otherwise: two documents with the same id are rejected, and so
  are two documents with the same lower-cased, stripped question.
\<close>

theorem documents_unique_ids_and_questions:
  "validate_documents lower v =
     (if distinct (map document_id v)
         \<and> distinct (map (\<lambda>doc. strip (lower (question doc))) v)
      then Inr v else Inl ValueError)
   \<and> (i < j \<and> j < length v \<and> document_id (v ! i) = document_id (v ! j)
        \<longrightarrow> validate_documents lower v = Inl ValueError)
   \<and> (i < j \<and> j < length v
        \<and> strip (lower (question (v ! i))) = strip (lower (question (v ! j)))
        \<longrightarrow> validate_documents lower v = Inl ValueError)"
proof (intro conjI impI)
  show "validate_documents lower v =
     (if distinct (map document_id v)
         \<and> distinct (map (\<lambda>doc. strip (lower (question doc))) v)
      then Inr v else Inl ValueError)"
    by (rule validate_documents_eq)
next
  assume "i < j \<and> j < length v \<and> document_id (v ! i) = document_id (v ! j)"
  then have "\<not> distinct (map document_id v)"
    using not_distinct_nth [of i j "map document_id v"] by simp
  then show "validate_documents lower v = Inl ValueError"
    by (simp add: validate_documents_eq)
next
  assume "i < j \<and> j < length v
        \<and> strip (lower (question (v ! i))) = strip (lower (question (v ! j)))"
  then have "\<not> distinct (map (\<lambda>doc. strip (lower (question doc))) v)"
    using not_distinct_nth [of i j "map (\<lambda>doc. strip (lower (question doc))) v"] by simp
  then show "validate_documents lower v = Inl ValueError"
    by (simp add: validate_documents_eq)
qed

theorem documents_unique_ids_and_questions_witness:
  "validate_documents ascii_lower
     [\<lparr>document_id = 1, name = [], question = str ''How'', answer = str ''a''\<rparr>,
      \<lparr>document_id = 2, name = [], question = str ''how '', answer = str ''b''\<rparr>]
     = Inl ValueError
   \<and> validate_documents ascii_lower
     [\<lparr>document_id = 1, name = [], question = str ''How'', answer = str ''a''\<rparr>,
      \<lparr>document_id = 2, name = [], question = str ''Why'', answer = str ''b''\<rparr>]
     = Inr [\<lparr>document_id = 1, name = [], question = str ''How'', answer = str ''a''\<rparr>,
            \<lparr>document_id = 2, name = [], question = str ''Why'', answer = str ''b''\<rparr>]"
  using documents_unique_ids_and_questions
      [where lower = ascii_lower and i = 0 and j = 1 and v =
        "[\<lparr>document_id = 1, name = [], question = str ''How'', answer = str ''a''\<rparr>,
          \<lparr>document_id = 2, name = [], question = str ''how '', answer = str ''b''\<rparr>]"]
    documents_unique_ids_and_questions
      [where lower = ascii_lower and i = 0 and j = 1 and v =
        "[\<lparr>document_id = 1, name = [], question = str ''How'', answer = str ''a''\<rparr>,
          \<lparr>document_id = 2, name = [], question = str ''Why'', answer = str ''b''\<rparr>]"]
  by (simp add: ascii_lower_def strip_def lstrip_def rstrip_def isspace_def str_def)

text \<open>
  C4, as stated, fails: a request that supplies \<^verbatim>\<open>count = 10\<close> and the alias with the value
  20 is accepted with both values stored, each in its own field; nothing is resolved to
  one value.
\<close>

theorem pagination_pair_not_resolved:
  "GetParaphrasesyParamsModel_validate
     [(''document_id'', Some 1), (''count'', Some 10), (''limit_paraphrases'', Some 20)]
     = Valid \<lparr>GetParaphrasesyParamsModel.document_id = 1, limit_paraphrases = Some 20, offset_paraphrases = None,
              offset = Some 0, count = Some 10\<rparr>
   \<and> GetParaphrasesyParamsModel.count
        \<lparr>GetParaphrasesyParamsModel.document_id = 1, limit_paraphrases = Some 20, offset_paraphrases = None,
          offset = Some 0, count = Some 10\<rparr>
      \<noteq> limit_paraphrases
        \<lparr>GetParaphrasesyParamsModel.document_id = 1, limit_paraphrases = Some 20, offset_paraphrases = None,
          offset = Some 0, count = Some 10\<rparr>
   \<and> SuggestedDocumentsParamsModel_validate [(''count'', Some 10), (''limit'', Some 20)]
     = Valid \<lparr>limit = Some 20, SuggestedDocumentsParamsModel.offset = Some 0, SuggestedDocumentsParamsModel.count = Some 10\<rparr>"
  by (simp add: GetParaphrasesyParamsModel_validate_def
      SuggestedDocumentsParamsModel_validate_def)

text \<open>
  C4, amended. Validation keeps \<^verbatim>\<open>count\<close> and \<^verbatim>\<open>limit\<close> (or \<^verbatim>\<open>limit_paraphrases\<close>) as two
  independent fields: an accepted record holds each value as it was supplied (\<^verbatim>\<open>None\<close>
  when omitted), and the result does not depend on which of two parameters is supplied
  first.
\<close>

theorem pagination_pair_kept_as_supplied:
  "(GetParaphrasesyParamsModel_validate kv = Valid r \<longrightarrow>
      GetParaphrasesyParamsModel.count r = (case map_of kv ''count'' of None \<Rightarrow> None | Some x \<Rightarrow> x)
      \<and> limit_paraphrases r
          = (case map_of kv ''limit_paraphrases'' of None \<Rightarrow> None | Some x \<Rightarrow> x))
   \<and> (SuggestedDocumentsParamsModel_validate kv = Valid r' \<longrightarrow>
      SuggestedDocumentsParamsModel.count r'
          = (case map_of kv ''count'' of None \<Rightarrow> None | Some x \<Rightarrow> x)
      \<and> limit r' = (case map_of kv ''limit'' of None \<Rightarrow> None | Some x \<Rightarrow> x))
   \<and> (fst a \<noteq> fst b \<longrightarrow>
      GetParaphrasesyParamsModel_validate (a # b # kv)
        = GetParaphrasesyParamsModel_validate (b # a # kv)
      \<and> SuggestedDocumentsParamsModel_validate (a # b # kv)
        = SuggestedDocumentsParamsModel_validate (b # a # kv))"
proof (intro conjI impI)
  assume v: "GetParaphrasesyParamsModel_validate kv = Valid r"
  show "GetParaphrasesyParamsModel.count r = (case map_of kv ''count'' of None \<Rightarrow> None | Some x \<Rightarrow> x)"
    using GetParaphrasesyParamsModel_fields(1) [OF v] by (rule optional_int_ge_Valid)
  show "limit_paraphrases r
          = (case map_of kv ''limit_paraphrases'' of None \<Rightarrow> None | Some x \<Rightarrow> x)"
    using GetParaphrasesyParamsModel_fields(2) [OF v] by (rule optional_int_ge_Valid)
next
  assume v: "SuggestedDocumentsParamsModel_validate kv = Valid r'"
  show "SuggestedDocumentsParamsModel.count r'
          = (case map_of kv ''count'' of None \<Rightarrow> None | Some x \<Rightarrow> x)"
    using SuggestedDocumentsParamsModel_fields(1) [OF v] by (rule optional_int_ge_Valid)
  show "limit r' = (case map_of kv ''limit'' of None \<Rightarrow> None | Some x \<Rightarrow> x)"
    using SuggestedDocumentsParamsModel_fields(2) [OF v] by (rule optional_int_ge_Valid)
next
  assume "fst a \<noteq> fst b"
  then have m: "map_of (a # b # kv) = map_of (b # a # kv)"
    by (rule map_of_swap)
  show "GetParaphrasesyParamsModel_validate (a # b # kv)
        = GetParaphrasesyParamsModel_validate (b # a # kv)"
    unfolding GetParaphrasesyParamsModel_validate_def m ..
  show "SuggestedDocumentsParamsModel_validate (a # b # kv)
        = SuggestedDocumentsParamsModel_validate (b # a # kv)"
    unfolding SuggestedDocumentsParamsModel_validate_def m ..
qed

theorem pagination_pair_kept_as_supplied_witness:
  "GetParaphrasesyParamsModel_validate
     [(''limit_paraphrases'', Some 20), (''count'', Some 10), (''document_id'', Some 1)]
   = GetParaphrasesyParamsModel_validate
     [(''count'', Some 10), (''limit_paraphrases'', Some 20), (''document_id'', Some 1)]
   \<and> GetParaphrasesyParamsModel_validate
     [(''count'', Some 10), (''limit_paraphrases'', Some 20), (''document_id'', Some 1)]
   = Valid \<lparr>GetParaphrasesyParamsModel.document_id = 1, limit_paraphrases = Some 20, offset_paraphrases = None,
            offset = Some 0, count = Some 10\<rparr>"
  using pagination_pair_kept_as_supplied
    [where a = "(''limit_paraphrases'', Some 20)" and b = "(''count'', Some 10)"
       and kv = "[(''document_id'', Some 1)]"]
  by (simp add: GetParaphrasesyParamsModel_validate_def)

text \<open>
  C8. An accepted \<^verbatim>\<open>inequal_lang_penalty\<close> is stored rounded to two decimals: the stored
  float is the one nearest to \<open>k / 100\<close> for an integer \<open>k\<close> from 0 to 100, it differs from
  \<open>k / 100\<close> by at most \<open>2^-53\<close>, and \<open>k / 100\<close> is within half a hundredth of the input.
  The float \<^verbatim>\<open>0.333\<close>, which is 5998794703657501 / 2^54, is stored as the float \<^verbatim>\<open>0.33\<close>,
  which is 5944751508129055 / 2^54.
\<close>

theorem penalty_rounded_to_two_decimals:
  "(ServiceCreateModel_inequal_lang_penalty (Some v) = Valid r \<longrightarrow>
      (\<exists>k. 0 \<le> k \<and> k \<le> 100 \<and> r = to_double (of_int k / 100)
           \<and> \<bar>r - of_int k / 100\<bar> \<le> 1 / 2 ^ 53
           \<and> \<bar>v - of_int k / 100\<bar> \<le> 1 / 200))
   \<and> ServiceCreateModel_inequal_lang_penalty
        (Some (5998794703657501 / 18014398509481984))
       = Valid (5944751508129055 / 18014398509481984)
   \<and> to_double (333 / 1000) = 5998794703657501 / 18014398509481984
   \<and> to_double (33 / 100) = 5944751508129055 / 18014398509481984"
proof (intro conjI impI)
  assume a: "ServiceCreateModel_inequal_lang_penalty (Some v) = Valid r"
  then have v: "0 \<le> v" "v \<le> 1" and r: "r = py_round v 2"
    by (auto simp: penalty_field split: if_splits)
  let ?k = "round_half_even (v * 100)"
  have k: "0 \<le> ?k" "?k \<le> 100"
    using v by (rule round_hundredths_range)+
  have rk: "r = to_double (of_int ?k / 100)"
    by (simp add: r py_round_def)
  have "\<bar>r - of_int ?k / 100\<bar> \<le> 1 / 2 ^ 53"
    unfolding rk using k by (rule to_double_hundredth)
  moreover have "\<bar>v - of_int ?k / 100\<bar> \<le> 1 / 200"
    by (rule round_hundredths)
  ultimately show "\<exists>k. 0 \<le> k \<and> k \<le> 100 \<and> r = to_double (of_int k / 100)
           \<and> \<bar>r - of_int k / 100\<bar> \<le> 1 / 2 ^ 53
           \<and> \<bar>v - of_int k / 100\<bar> \<le> 1 / 200"
    using k rk by blast
next
  show "ServiceCreateModel_inequal_lang_penalty
        (Some (5998794703657501 / 18014398509481984))
       = Valid (5944751508129055 / 18014398509481984)"
    by (simp add: penalty_field round_0333 literal_033)
next
  show "to_double (333 / 1000) = 5998794703657501 / 18014398509481984"
    by (rule literal_0333)
next
  show "to_double (33 / 100) = 5944751508129055 / 18014398509481984"
    by (rule literal_033)
qed

theorem penalty_rounded_to_two_decimals_witness:
  "\<exists>k. 0 \<le> k \<and> k \<le> 100
       \<and> \<bar>5944751508129055 / 18014398509481984 - of_int k / 100\<bar> \<le> (1 / 2 ^ 53 :: rat)
       \<and> \<bar>5998794703657501 / 18014398509481984 - of_int k / 100\<bar> \<le> (1 / 200 :: rat)"
  using penalty_rounded_to_two_decimals
    [where v = "5998794703657501 / 18014398509481984"
       and r = "5944751508129055 / 18014398509481984"]
  by blast

text \<open>
  C2. The validator of \<^verbatim>\<open>max_trainable_score\<close> tests \<^verbatim>\<open>'trainable' in values\<close> on the
  \<^verbatim>\<open>ValidationInfo\<close> object pydantic passes, which raises \<^verbatim>\<open>TypeError\<close>: every input that
  supplies a score within the bounds leaves the constructor with this exception. The
  score 0.4 is neither accepted and rounded when \<^verbatim>\<open>trainable\<close> is true nor reported as
  a validation error when \<^verbatim>\<open>trainable\<close> is false.
\<close>

theorem trainable_score_validator_raises_TypeError:
  "validate_trainable_score v (ValidationInfo data) = Inl TypeError
   \<and> ServiceCreateModel_max_trainable_score data (Some v)
       = (if v < 0 \<or> 1 < v then ValidationError else Raised TypeError)
   \<and> ServiceCreateModel_max_trainable_score [''trainable'' \<mapsto> PyBool True]
        (Some (to_double (4 / 10))) = Raised TypeError
   \<and> ServiceCreateModel_max_trainable_score [''trainable'' \<mapsto> PyBool False]
        (Some (to_double (4 / 10))) = Raised TypeError"
proof -
  have 1: "validate_trainable_score x (ValidationInfo d) = Inl TypeError" for x d
    by (simp add: validate_trainable_score_def)
  have 2: "ServiceCreateModel_max_trainable_score d (Some x)
       = (if x < 0 \<or> 1 < x then ValidationError else Raised TypeError)" for d x
    by (simp add: ServiceCreateModel_max_trainable_score_def after_def constrained_float_def
        1 field_validator_def)
  have 3: "\<not> (to_double (4 / 10) < 0 \<or> 1 < to_double (4 / 10))"
    using literal_04_range by auto
  show ?thesis
    using 3 by (simp only: 1 2 simp_thms if_False)
qed

subsection \<open>The two cross-field rules on a dict\<close>

text \<open>
  Called with a \<^verbatim>\<open>dict\<close> of the earlier fields, as pydantic version 1 called a validator,
  \<^verbatim>\<open>validate_trainable_score\<close> rejects a positive score exactly when \<^verbatim>\<open>trainable\<close> is
  false and otherwise returns the score rounded to two decimals.
\<close>

theorem trainable_score_on_dict:
  "validate_trainable_score v (PyDict [''trainable'' \<mapsto> PyBool t]) =
     (if \<not> t \<and> 0 < v then Inl ValueError else Inr (py_round v 2))"
  by (simp add: validate_trainable_score_def)

text \<open>
  Called with a \<^verbatim>\<open>dict\<close> that holds a timestamp \<^verbatim>\<open>tsFrom\<close>, \<^verbatim>\<open>validate_date_range\<close> rejects a
  \<^verbatim>\<open>tsTo\<close> that is not later than \<^verbatim>\<open>tsFrom\<close> and returns any later one; a naive and an
  aware timestamp cannot be compared.
\<close>

theorem date_range_on_dict:
  "validate_date_range (Some e) (PyDict [''tsFrom'' \<mapsto> PyDatetime s]) =
     (case datetime_le e s of
        Inl err \<Rightarrow> Inl err
      | Inr le \<Rightarrow> if le then Inl ValueError else Inr (Some e))"
  by (simp add: validate_date_range_def datetime_le_value_def)

subsection \<open>Further properties of the timestamp validators\<close>

text \<open>
  On a string the timestamp validator parses the text, with every \<^verbatim>\<open>Z\<close> replaced by
  \<^verbatim>\<open>+00:00\<close>, and then does what it does on a datetime; an error of the parser is the
  error of the validator.
\<close>

theorem dt_format_of_text:
  "QuestionModel_validate_dt_format fromisoformat (PyStr s) =
     (case fromisoformat (replace_char (of_char CHR ''Z'') (str ''+00:00'') s) of
        Inl e \<Rightarrow> Inl e
      | Inr d \<Rightarrow> QuestionModel_validate_dt_format fromisoformat (PyDatetime d))"
  by (simp add: QuestionModel_validate_dt_format_def split: sum.splits py_error.splits)

subsection \<open>The validator of the status list alone\<close>

text \<open>
  The validator of \<^verbatim>\<open>conversationStatusList\<close> returns a supplied list unchanged exactly
  when every entry is one of ClosedByBot, ClosedByOperator, ClosedByOperatorWithBot,
  ClosedByTimer, and raises \<^verbatim>\<open>ValueError\<close>, which pydantic reports as a validation error,
  when the list has any other entry.
\<close>

theorem conversation_status_in_closing_reasons:
  "validate_conversation_status (Some xs) =
     (if (\<forall>i \<in> set xs. i \<in> {str ''ClosedByBot'', str ''ClosedByOperator'',
                              str ''ClosedByOperatorWithBot'', str ''ClosedByTimer''})
      then Inr (Some xs) else Inl ValueError)
   \<and> field_validator (validate_conversation_status (Some xs)) =
     (if (\<forall>i \<in> set xs. i \<in> {str ''ClosedByBot'', str ''ClosedByOperator'',
                              str ''ClosedByOperatorWithBot'', str ''ClosedByTimer''})
      then Valid (Some xs) else ValidationError)"
  by (auto simp: validate_conversation_status_def check_statuses_iff STATUSES_def
      field_validator_def)

theorem conversation_status_in_closing_reasons_witness:
  "validate_conversation_status (Some [str ''ClosedByBot'', str ''ClosedByTimer'']) =
     Inr (Some [str ''ClosedByBot'', str ''ClosedByTimer''])
   \<and> validate_conversation_status (Some [str ''ClosedByBot'', str ''Open'']) = Inl ValueError"
  using conversation_status_in_closing_reasons [of "[str ''ClosedByBot'', str ''ClosedByTimer'']"]
    conversation_status_in_closing_reasons [of "[str ''ClosedByBot'', str ''Open'']"]
  by (simp add: str_def)

end
